theory Spec2Isabelle
  imports Main "HOL-Library.Word" "HOL-Library.List_Lexorder"
begin

section \<open>Strings\<close>

text \<open>
  A JavaScript string is a sequence of 16-bit code units; \<open>length\<close>, \<open>===\<close>,
  \<open>startsWith\<close>, \<open>includes\<close> and \<open><\<close> all work on code units. \<open>str\<close> writes
  an ASCII literal of the source as such a sequence.
\<close>

type_synonym jsstring = "16 word list"

definition str :: "string \<Rightarrow> jsstring" where
  "str s = map of_char s"

text \<open>
  \<open>String.prototype.trim\<close> removes WhiteSpace and LineTerminator code units from both
  ends; the regular expression class \<open>\s\<close> is the same set.
\<close>

definition is_space :: "16 word \<Rightarrow> bool" where
  "is_space c \<longleftrightarrow>
     c \<in> set [0x0009, 0x000A, 0x000B, 0x000C, 0x000D, 0x0020, 0x00A0, 0x1680,
              0x2000, 0x2001, 0x2002, 0x2003, 0x2004, 0x2005, 0x2006, 0x2007,
              0x2008, 0x2009, 0x200A, 0x2028, 0x2029, 0x202F, 0x205F, 0x3000, 0xFEFF]"

definition trim :: "jsstring \<Rightarrow> jsstring" where
  "trim s = rev (dropWhile is_space (rev (dropWhile is_space s)))"

fun startsWith :: "jsstring \<Rightarrow> jsstring \<Rightarrow> bool" where
  "startsWith s [] = True"
| "startsWith [] (p # ps) = False"
| "startsWith (c # cs) (p # ps) = (c = p \<and> startsWith cs ps)"

fun str_includes :: "jsstring \<Rightarrow> jsstring \<Rightarrow> bool" where
  "str_includes [] p = (p = [])"
| "str_includes (c # cs) p = (startsWith (c # cs) p \<or> str_includes cs p)"

fun join :: "jsstring \<Rightarrow> jsstring list \<Rightarrow> jsstring" where
  "join sep [] = []"
| "join sep [x] = x"
| "join sep (x # y # ys) = x @ sep @ join sep (y # ys)"

section \<open>Todo (src/js/models/Todo.js)\<close>

text \<open>
  The entity. Its fields carry the types the data model gives them: strings, a boolean,
  two string arrays, and \<open>dueDate\<close> and \<open>completedAt\<close> that are a string or \<open>null\<close>
  (\<open>None\<close>). The field \<open>id\<close> is written \<open>todo_id\<close>.
\<close>

record todo =
  todo_id :: jsstring
  title :: jsstring
  description :: jsstring
  completed :: bool
  priority :: jsstring
  dueDate :: "jsstring option"
  categories :: "jsstring list"
  tags :: "jsstring list"
  createdAt :: jsstring
  updatedAt :: jsstring
  completedAt :: "jsstring option"

text \<open>
  A plain field record as the constructor and \<open>update\<close> receive it. Every key is optional:
  \<open>None\<close> is a key that is not there. A key that is there holds a value of the field's
  type, for \<open>dueDate\<close> and \<open>completedAt\<close> a string or \<open>null\<close> (\<open>Some None\<close>).
  Keys that name none of the eleven fields are not part of the record.
\<close>

record fields =
  f_id :: "jsstring option"
  f_title :: "jsstring option"
  f_description :: "jsstring option"
  f_completed :: "bool option"
  f_priority :: "jsstring option"
  f_dueDate :: "jsstring option option"
  f_categories :: "jsstring list option"
  f_tags :: "jsstring list option"
  f_createdAt :: "jsstring option"
  f_updatedAt :: "jsstring option"
  f_completedAt :: "jsstring option option"

definition no_fields :: fields where
  "no_fields = \<lparr>f_id = None, f_title = None, f_description = None, f_completed = None,
     f_priority = None, f_dueDate = None, f_categories = None, f_tags = None,
     f_createdAt = None, f_updatedAt = None, f_completedAt = None\<rparr>"

text \<open>
  \<open>data.x || d\<close>: the default \<open>d\<close> replaces a missing key and every falsy value. Of the
  values a field can hold, the empty string, \<open>null\<close> and \<open>false\<close> are falsy; an array is
  always truthy.
\<close>

definition or_str :: "jsstring option \<Rightarrow> jsstring \<Rightarrow> jsstring" where
  "or_str v d = (case v of None \<Rightarrow> d | Some s \<Rightarrow> if s = [] then d else s)"

definition or_null :: "jsstring option option \<Rightarrow> jsstring option" where
  "or_null v = (case v of None \<Rightarrow> None | Some None \<Rightarrow> None
                | Some (Some s) \<Rightarrow> if s = [] then None else Some s)"

definition or_false :: "bool option \<Rightarrow> bool" where
  "or_false v = (case v of None \<Rightarrow> False | Some b \<Rightarrow> b)"

definition or_empty :: "jsstring list option \<Rightarrow> jsstring list" where
  "or_empty v = (case v of None \<Rightarrow> [] | Some xs \<Rightarrow> xs)"

text \<open>
  The constructor. \<open>gen\<close> is what \<open>generateId()\<close> returns when it is called, \<open>now_c\<close> and
  \<open>now_u\<close> are the two readings \<open>new Date().toISOString()\<close> gives for \<open>createdAt\<close> and
  \<open>updatedAt\<close>.
\<close>

definition Todo_new :: "jsstring \<Rightarrow> jsstring \<Rightarrow> jsstring \<Rightarrow> fields \<Rightarrow> todo" where
  "Todo_new gen now_c now_u data =
     \<lparr>todo_id = or_str (f_id data) gen,
      title = or_str (f_title data) [],
      description = or_str (f_description data) [],
      completed = or_false (f_completed data),
      priority = or_str (f_priority data) (str ''medium''),
      dueDate = or_null (f_dueDate data),
      categories = or_empty (f_categories data),
      tags = or_empty (f_tags data),
      createdAt = or_str (f_createdAt data) now_c,
      updatedAt = or_str (f_updatedAt data) now_u,
      completedAt = or_null (f_completedAt data)\<rparr>"

text \<open>
  \<open>toggleComplete\<close>: \<open>now_done\<close> is the clock reading stored in \<open>completedAt\<close> (taken
  only when the entity becomes completed), \<open>now_u\<close> the one stored in \<open>updatedAt\<close>.
\<close>

definition Todo_toggleComplete :: "jsstring \<Rightarrow> jsstring \<Rightarrow> todo \<Rightarrow> todo" where
  "Todo_toggleComplete now_done now_u t =
     (let t1 = t\<lparr>completed := \<not> completed t\<rparr>;
          t2 = t1\<lparr>completedAt := (if completed t1 then Some now_done else None)\<rparr>
      in t2\<lparr>updatedAt := now_u\<rparr>)"

text \<open>
  \<open>update\<close>: \<open>id\<close> and \<open>createdAt\<close> are taken out of the record, \<open>Object.assign\<close>
  copies every other key that is there, whatever its value, and \<open>updatedAt\<close> is set last.
\<close>

definition assign :: "'a option \<Rightarrow> 'a \<Rightarrow> 'a" where
  "assign v old = (case v of None \<Rightarrow> old | Some x \<Rightarrow> x)"

definition Todo_update :: "jsstring \<Rightarrow> fields \<Rightarrow> todo \<Rightarrow> todo" where
  "Todo_update now_u data t =
     (let t1 = t\<lparr>title := assign (f_title data) (title t),
                  description := assign (f_description data) (description t),
                  completed := assign (f_completed data) (completed t),
                  priority := assign (f_priority data) (priority t),
                  dueDate := assign (f_dueDate data) (dueDate t),
                  categories := assign (f_categories data) (categories t),
                  tags := assign (f_tags data) (tags t),
                  updatedAt := assign (f_updatedAt data) (updatedAt t),
                  completedAt := assign (f_completedAt data) (completedAt t)\<rparr>
      in t1\<lparr>updatedAt := now_u\<rparr>)"


text \<open>
  What the entity needs from the platform it runs on, taken as parameters:
  \<^item> \<open>Date_getTime s\<close> is \<open>new Date(s).getTime()\<close> for a string \<open>s\<close>: the time value
    in milliseconds since the epoch, \<open>None\<close> for \<open>NaN\<close> (an invalid date);
  \<^item> \<open>JSON_parse\<close> and \<open>JSON_stringify\<close>, the first raising on text that is not JSON;
  \<^item> \<open>toLowerCase\<close> of a string.
\<close>

datatype exn = SyntaxError | TypeError | SecurityError | QuotaExceededError | Error jsstring

datatype jsval = JUndefined | JNull | JBool bool | JNum int | JStr jsstring
  | JArr "jsval list" | JObj "(jsstring \<times> jsval) list"

record platform =
  Date_getTime :: "jsstring \<Rightarrow> int option"
  JSON_parse :: "jsstring \<Rightarrow> exn + jsval"
  JSON_stringify :: "jsval \<Rightarrow> jsstring"
  toLowerCase :: "jsstring \<Rightarrow> jsstring"

text \<open>The four messages of \<open>validate\<close>, as code units.\<close>

definition msg_title_required :: jsstring where
  "msg_title_required = [0x30BF, 0x30A4, 0x30C8, 0x30EB, 0x306F, 0x5FC5, 0x9808, 0x3067, 0x3059]"

definition msg_title_too_long :: jsstring where
  "msg_title_too_long = [0x30BF, 0x30A4, 0x30C8, 0x30EB, 0x306F, 0x32, 0x30, 0x30, 0x6587,
     0x5B57, 0x4EE5, 0x5185, 0x306B, 0x3057, 0x3066, 0x304F, 0x3060, 0x3055, 0x3044]"

definition msg_priority_invalid :: jsstring where
  "msg_priority_invalid = [0x512A, 0x5148, 0x5EA6, 0x304C, 0x7121, 0x52B9, 0x3067, 0x3059]"

definition msg_dueDate_invalid :: jsstring where
  "msg_dueDate_invalid = [0x671F, 0x9650, 0x306E, 0x65E5, 0x4ED8, 0x304C, 0x7121, 0x52B9,
     0x3067, 0x3059]"

record validation =
  isValid :: bool
  errors :: "jsstring list"

definition push_if :: "bool \<Rightarrow> jsstring \<Rightarrow> jsstring list \<Rightarrow> jsstring list" where
  "push_if c m es = (if c then es @ [m] else es)"

definition Todo_validate :: "platform \<Rightarrow> todo \<Rightarrow> validation" where
  "Todo_validate P t =
     (let e0 = [];
          e1 = push_if (title t = [] \<or> trim (title t) = []) msg_title_required e0;
          e2 = push_if (length (title t) > 200) msg_title_too_long e1;
          e3 = push_if (priority t \<notin> set [str ''high'', str ''medium'', str ''low''])
                 msg_priority_invalid e2;
          e4 = push_if (case dueDate t of None \<Rightarrow> False
                        | Some d \<Rightarrow> d \<noteq> [] \<and> Date_getTime P d = None)
                 msg_dueDate_invalid e3
      in \<lparr>isValid = (length e4 = 0), errors = e4\<rparr>)"

definition null_or_str :: "jsstring option \<Rightarrow> jsval" where
  "null_or_str v = (case v of None \<Rightarrow> JNull | Some s \<Rightarrow> JStr s)"

definition Todo_toJSON :: "todo \<Rightarrow> jsval" where
  "Todo_toJSON t = JObj
     [(str ''id'', JStr (todo_id t)),
      (str ''title'', JStr (title t)),
      (str ''description'', JStr (description t)),
      (str ''completed'', JBool (completed t)),
      (str ''priority'', JStr (priority t)),
      (str ''dueDate'', null_or_str (dueDate t)),
      (str ''categories'', JArr (map JStr (categories t))),
      (str ''tags'', JArr (map JStr (tags t))),
      (str ''createdAt'', JStr (createdAt t)),
      (str ''updatedAt'', JStr (updatedAt t)),
      (str ''completedAt'', null_or_str (completedAt t))]"

section \<open>StorageService (src/js/services/StorageService.js)\<close>

text \<open>
  \<open>localStorage\<close>: the items in the order they were first set, the quota in code units
  of keys and values together, and whether the browser denies access to the store: then
  every call raises \<open>SecurityError\<close>. \<open>setItem\<close> raises \<open>QuotaExceededError\<close>, and
  stores nothing, when the items would exceed the quota.
\<close>

record local_storage =
  items :: "(jsstring \<times> jsstring) list"
  quota :: nat
  denied :: bool

fun put :: "jsstring \<Rightarrow> jsstring \<Rightarrow> (jsstring \<times> jsstring) list \<Rightarrow> (jsstring \<times> jsstring) list" where
  "put k v [] = [(k, v)]"
| "put k v ((k', v') # kvs) = (if k' = k then (k, v) # kvs else (k', v') # put k v kvs)"

definition used :: "(jsstring \<times> jsstring) list \<Rightarrow> nat" where
  "used kvs = sum_list (map (\<lambda>(k, v). length k + length v) kvs)"

definition getItem :: "local_storage \<Rightarrow> jsstring \<Rightarrow> exn + jsstring option" where
  "getItem ls k = (if denied ls then Inl SecurityError else Inr (map_of (items ls) k))"

definition setItem :: "local_storage \<Rightarrow> jsstring \<Rightarrow> jsstring \<Rightarrow> exn + local_storage" where
  "setItem ls k v =
     (if denied ls then Inl SecurityError
      else if used (put k v (items ls)) > quota ls then Inl QuotaExceededError
      else Inr (ls\<lparr>items := put k v (items ls)\<rparr>))"

text \<open>What the code shows outside its return values: console lines, alerts, listener calls.\<close>

datatype event = Console_warn jsstring | Console_log jsstring | Console_error jsstring exn
  | Alert jsstring | Notify nat "todo list"

fun truthy :: "jsval \<Rightarrow> bool" where
  "truthy JUndefined = False"
| "truthy JNull = False"
| "truthy (JBool b) = b"
| "truthy (JNum n) = (n \<noteq> 0)"
| "truthy (JStr s) = (s \<noteq> [])"
| "truthy (JArr xs) = True"
| "truthy (JObj kvs) = True"

fun typeof :: "jsval \<Rightarrow> jsstring" where
  "typeof JUndefined = str ''undefined''"
| "typeof JNull = str ''object''"
| "typeof (JBool b) = str ''boolean''"
| "typeof (JNum n) = str ''number''"
| "typeof (JStr s) = str ''string''"
| "typeof (JArr xs) = str ''object''"
| "typeof (JObj kvs) = str ''object''"

text \<open>
  Reading a property of a parsed value: \<open>null\<close> and \<open>undefined\<close> raise \<open>TypeError\<close>; an
  object gives the value under the key or \<open>undefined\<close>; no other parsed value has a
  property called \<open>version\<close> or \<open>todos\<close>, the two names the code reads.
\<close>

fun get_prop :: "jsval \<Rightarrow> jsstring \<Rightarrow> exn + jsval" where
  "get_prop JUndefined k = Inl TypeError"
| "get_prop JNull k = Inl TypeError"
| "get_prop (JObj kvs) k = Inr (case map_of kvs k of None \<Rightarrow> JUndefined | Some v \<Rightarrow> v)"
| "get_prop v k = Inr JUndefined"

record storage_service =
  key :: jsstring
  version :: jsstring

definition StorageService_new :: "jsstring option \<Rightarrow> storage_service" where
  "StorageService_new k =
     \<lparr>key = (case k of None \<Rightarrow> str ''todoApp'' | Some k' \<Rightarrow> k'), version = str ''1.0.0''\<rparr>"

text \<open>
  \<open>load\<close>: the body of the \<open>try\<close> block, where a raise is \<open>Inl\<close>, with the console lines
  written up to there, and the method itself, whose \<open>catch\<close> turns every raise into \<open>[]\<close>.
\<close>

definition load_try :: "platform \<Rightarrow> storage_service \<Rightarrow> local_storage \<Rightarrow> (exn + jsval list) \<times> event list" where
  "load_try P svc ls =
     (case getItem ls (key svc) of
        Inl e \<Rightarrow> (Inl e, [])
      | Inr None \<Rightarrow> (Inr [], [])
      | Inr (Some data) \<Rightarrow>
          if data = [] then (Inr [], [])
          else (case JSON_parse P data of
             Inl e \<Rightarrow> (Inl e, [])
           | Inr parsed \<Rightarrow>
               if \<not> truthy parsed \<or> typeof parsed \<noteq> str ''object''
               then (Inr [], [Console_warn (str ''Invalid data structure in storage'')])
               else (case get_prop parsed (str ''version'') of
                  Inl e \<Rightarrow> (Inl e, [])
                | Inr v \<Rightarrow>
                    (let evs = (if v \<noteq> JStr (version svc)
                                then [Console_log (str ''Data version mismatch, may need migration'')]
                                else [])
                     in case get_prop parsed (str ''todos'') of
                          Inl e \<Rightarrow> (Inl e, evs)
                        | Inr (JArr xs) \<Rightarrow> (Inr xs, evs)
                        | Inr _ \<Rightarrow> (Inr [], evs)))))"

definition StorageService_load :: "platform \<Rightarrow> storage_service \<Rightarrow> local_storage \<Rightarrow> (exn + jsval list) \<times> event list" where
  "StorageService_load P svc ls =
     (case load_try P svc ls of
        (Inl error, evs) \<Rightarrow>
          (Inr [], evs @ [Console_error (str ''Failed to load from storage:'') error])
      | (Inr r, evs) \<Rightarrow> (Inr r, evs))"

definition msg_quota :: jsstring where
  "msg_quota = [0x30B9, 0x30C8, 0x30EC, 0x30FC, 0x30B8, 0x5BB9, 0x91CF, 0x304C, 0x4E0D, 0x8DB3,
     0x3057, 0x3066, 0x3044, 0x307E, 0x3059, 0x3002, 0x53E4, 0x3044, 0x30C7, 0x30FC, 0x30BF,
     0x3092, 0x524A, 0x9664, 0x3057, 0x3066, 0x304F, 0x3060, 0x3055, 0x3044, 0x3002]"

text \<open>
  \<open>save\<close>: the envelope is written under the key; a raise of \<open>setItem\<close> is caught, logged
  and, for the quota, shown in an alert. \<open>now_s\<close> is the clock reading for \<open>lastUpdated\<close>.
\<close>

definition envelope :: "storage_service \<Rightarrow> jsstring \<Rightarrow> jsval list \<Rightarrow> jsval" where
  "envelope svc now_s ts =
     JObj [(str ''version'', JStr (version svc)), (str ''todos'', JArr ts),
           (str ''lastUpdated'', JStr now_s)]"

definition StorageService_save :: "platform \<Rightarrow> storage_service \<Rightarrow> jsstring \<Rightarrow> jsval list \<Rightarrow> local_storage \<Rightarrow> bool \<times> local_storage \<times> event list" where
  "StorageService_save P svc now_s ts ls =
     (let data = envelope svc now_s ts
      in case setItem ls (key svc) (JSON_stringify P data) of
           Inr ls' \<Rightarrow> (True, ls', [])
         | Inl error \<Rightarrow>
             (False, ls,
              Console_error (str ''Failed to save to storage:'') error #
              (if error = QuotaExceededError then [Alert msg_quota] else [])))"

section \<open>TodoList (src/js/models/TodoList.js)\<close>

text \<open>
  The collection with what it acts on: its storage service, the entities in array order,
  the subscribed listeners (named by numbers, in subscription order), the browser's store
  and the trace of events. A listener is an observer: calling it adds a \<open>Notify\<close> event
  with the array it is given.
\<close>

record todo_list =
  storageService :: storage_service
  todos :: "todo list"
  listeners :: "nat list"
  localStorage :: local_storage
  trace :: "event list"

definition TodoList_new :: "storage_service \<Rightarrow> local_storage \<Rightarrow> todo_list" where
  "TodoList_new svc ls =
     \<lparr>storageService = svc, todos = [], listeners = [], localStorage = ls, trace = []\<rparr>"

definition notify :: "todo_list \<Rightarrow> todo_list" where
  "notify s = s\<lparr>trace := trace s @ map (\<lambda>listener. Notify listener (todos s)) (listeners s)\<rparr>"

definition TodoList_save :: "platform \<Rightarrow> jsstring \<Rightarrow> todo_list \<Rightarrow> todo_list" where
  "TodoList_save P now_s s =
     (case StorageService_save P (storageService s) now_s (map Todo_toJSON (todos s))
             (localStorage s) of
        (ok, ls', evs) \<Rightarrow> notify (s\<lparr>localStorage := ls', trace := trace s @ evs\<rparr>))"

text \<open>
  \<open>add\<close>. The result is the entity, or the raised \<open>Error\<close>, with the state the call leaves.
  \<open>gen\<close>, \<open>now_c\<close>, \<open>now_u\<close> are the readings of the constructor, \<open>now_s\<close> that of \<open>save\<close>.
\<close>

definition TodoList_add :: "platform \<Rightarrow> jsstring \<Rightarrow> jsstring \<Rightarrow> jsstring \<Rightarrow> jsstring \<Rightarrow> fields \<Rightarrow> todo_list \<Rightarrow> (exn + todo) \<times> todo_list" where
  "TodoList_add P gen now_c now_u now_s todoData s =
     (let todo = Todo_new gen now_c now_u todoData;
          validation = Todo_validate P todo
      in if \<not> isValid validation
         then (Inl (Error (join (str '', '') (errors validation))), s)
         else (Inr todo, TodoList_save P now_s (s\<lparr>todos := todos s @ [todo]\<rparr>)))"

definition TodoList_findById :: "jsstring \<Rightarrow> todo_list \<Rightarrow> todo option" where
  "TodoList_findById i s = find (\<lambda>todo. todo_id todo = i) (todos s)"

text \<open>
  \<open>update\<close> changes the entity that \<open>findById\<close> returned, where it stands in the array:
  the first one with the id.
\<close>

fun replace_first :: "jsstring \<Rightarrow> todo \<Rightarrow> todo list \<Rightarrow> todo list" where
  "replace_first i t' [] = []"
| "replace_first i t' (t # ts) = (if todo_id t = i then t' # ts else t # replace_first i t' ts)"

definition TodoList_update :: "platform \<Rightarrow> jsstring \<Rightarrow> jsstring \<Rightarrow> jsstring \<Rightarrow> fields \<Rightarrow> todo_list \<Rightarrow> (exn + todo option) \<times> todo_list" where
  "TodoList_update P now_u now_s i data s =
     (case TodoList_findById i s of
        None \<Rightarrow> (Inr None, s)
      | Some todo \<Rightarrow>
          (let todo' = Todo_update now_u data todo;
               s1 = s\<lparr>todos := replace_first i todo' (todos s)\<rparr>;
               validation = Todo_validate P todo'
           in if \<not> isValid validation
              then (Inl (Error (join (str '', '') (errors validation))), s1)
              else (Inr (Some todo'), TodoList_save P now_s s1)))"

definition TodoList_delete :: "platform \<Rightarrow> jsstring \<Rightarrow> jsstring \<Rightarrow> todo_list \<Rightarrow> bool \<times> todo_list" where
  "TodoList_delete P now_s i s =
     (let initialLength = length (todos s);
          s1 = s\<lparr>todos := filter (\<lambda>todo. todo_id todo \<noteq> i) (todos s)\<rparr>
      in if length (todos s1) \<noteq> initialLength
         then (True, TodoList_save P now_s s1)
         else (False, s1))"

text \<open>
  \<open>filter\<close>. A criterion is a string or is not there; one that is there counts only when
  it is truthy, that is, not empty.
\<close>

record criteria =
  c_status :: "jsstring option"
  c_priority :: "jsstring option"
  c_category :: "jsstring option"
  c_tag :: "jsstring option"
  c_search :: "jsstring option"

definition no_criteria :: criteria where
  "no_criteria = \<lparr>c_status = None, c_priority = None, c_category = None, c_tag = None,
     c_search = None\<rparr>"

definition given :: "jsstring option \<Rightarrow> (jsstring \<Rightarrow> bool) \<Rightarrow> bool" where
  "given v p = (case v of None \<Rightarrow> False | Some x \<Rightarrow> x \<noteq> [] \<and> p x)"

definition keeps :: "platform \<Rightarrow> criteria \<Rightarrow> todo \<Rightarrow> bool" where
  "keeps P c todo =
     (if c_status c = Some (str ''active'') \<and> completed todo then False
      else if c_status c = Some (str ''completed'') \<and> \<not> completed todo then False
      else if given (c_priority c) (\<lambda>p. priority todo \<noteq> p) then False
      else if given (c_category c) (\<lambda>x. x \<notin> set (categories todo)) then False
      else if given (c_tag c) (\<lambda>x. x \<notin> set (tags todo)) then False
      else if given (c_search c) (\<lambda>q.
                let searchLower = toLowerCase P q;
                    titleMatch = str_includes (toLowerCase P (title todo)) searchLower;
                    descMatch = str_includes (toLowerCase P (description todo)) searchLower
                in \<not> titleMatch \<and> \<not> descMatch) then False
      else True)"

definition TodoList_filter :: "platform \<Rightarrow> criteria option \<Rightarrow> todo_list \<Rightarrow> todo list" where
  "TodoList_filter P c s =
     filter (keeps P (case c of None \<Rightarrow> no_criteria | Some c' \<Rightarrow> c')) (todos s)"

text \<open>
  \<open>sort\<close>. \<open>a[field]\<close> reads one of the eleven fields by name; any other name gives
  \<open>undefined\<close> (the names of the methods are not taken as sort fields). The values the comparator handles: what a field holds, and the numbers
  (a time value, a rank, or \<open>NaN\<close>) the two conversions put in its place.
\<close>

datatype sval = SUndefined | SNull | SBool bool | SStr jsstring | SArr "jsstring list"
  | SNum int | SNaN

definition null_or_sstr :: "jsstring option \<Rightarrow> sval" where
  "null_or_sstr v = (case v of None \<Rightarrow> SNull | Some x \<Rightarrow> SStr x)"

definition field_value :: "todo \<Rightarrow> jsstring \<Rightarrow> sval" where
  "field_value t f =
     (if f = str ''id'' then SStr (todo_id t)
      else if f = str ''title'' then SStr (title t)
      else if f = str ''description'' then SStr (description t)
      else if f = str ''completed'' then SBool (completed t)
      else if f = str ''priority'' then SStr (priority t)
      else if f = str ''dueDate'' then null_or_sstr (dueDate t)
      else if f = str ''categories'' then SArr (categories t)
      else if f = str ''tags'' then SArr (tags t)
      else if f = str ''createdAt'' then SStr (createdAt t)
      else if f = str ''updatedAt'' then SStr (updatedAt t)
      else if f = str ''completedAt'' then null_or_sstr (completedAt t)
      else SUndefined)"

definition time_value :: "int option \<Rightarrow> sval" where
  "time_value v = (case v of None \<Rightarrow> SNaN | Some ms \<Rightarrow> SNum ms)"

text \<open>
  \<open>v ? new Date(v).getTime() : 0\<close>. A falsy value gives 0. A string is parsed as a
  date; \<open>true\<close> is the time value 1; an array is parsed from its elements joined by commas.
\<close>

fun date_conv :: "platform \<Rightarrow> sval \<Rightarrow> sval" where
  "date_conv P SUndefined = SNum 0"
| "date_conv P SNull = SNum 0"
| "date_conv P (SBool b) = (if b then SNum 1 else SNum 0)"
| "date_conv P (SStr x) = (if x = [] then SNum 0 else time_value (Date_getTime P x))"
| "date_conv P (SArr xs) = time_value (Date_getTime P (join (str '','') xs))"
| "date_conv P (SNum n) = (if n = 0 then SNum 0 else SNum n)"
| "date_conv P SNaN = SNum 0"

definition priorityOrder :: "jsstring \<Rightarrow> int option" where
  "priorityOrder p =
     (if p = str ''high'' then Some 3
      else if p = str ''medium'' then Some 2
      else if p = str ''low'' then Some 1
      else None)"

text \<open>
  \<open>priorityOrder[v] || 0\<close>, for the string the \<open>priority\<close> field holds. The key of a
  value that is not a string is its text, which is none of the three names but for an
  array whose joined elements spell one. The table is read for its own three keys only;
  what the properties say about priorities, they say for these three.
\<close>

definition rank_of :: "jsstring \<Rightarrow> sval" where
  "rank_of p = (case priorityOrder p of None \<Rightarrow> SNum 0 | Some n \<Rightarrow> SNum n)"

fun priority_conv :: "sval \<Rightarrow> sval" where
  "priority_conv (SStr p) = rank_of p"
| "priority_conv (SArr xs) = rank_of (join (str '','') xs)"
| "priority_conv v = SNum 0"

text \<open>
  \<open>x < y\<close>. Two strings (an array counts as its elements joined by commas) compare by
  code units. Two values that are not strings compare as numbers, \<open>undefined\<close> and \<open>NaN\<close>
  being less than nothing. The comparator only ever compares what two entities hold in
  one field, so a string never meets a number; that case is \<open>False\<close> here.
\<close>

fun as_string :: "sval \<Rightarrow> jsstring option" where
  "as_string (SStr x) = Some x"
| "as_string (SArr xs) = Some (join (str '','') xs)"
| "as_string v = None"

fun as_number :: "sval \<Rightarrow> int option" where
  "as_number SNull = Some 0"
| "as_number (SBool b) = Some (if b then 1 else 0)"
| "as_number (SNum n) = Some n"
| "as_number v = None"

definition js_lt :: "sval \<Rightarrow> sval \<Rightarrow> bool" where
  "js_lt x y =
     (case (as_string x, as_string y) of
        (Some a, Some b) \<Rightarrow> a < b
      | (None, None) \<Rightarrow>
          (case (as_number x, as_number y) of (Some m, Some n) \<Rightarrow> m < n | _ \<Rightarrow> False)
      | _ \<Rightarrow> False)"

definition sort_value :: "platform \<Rightarrow> jsstring \<Rightarrow> todo \<Rightarrow> sval" where
  "sort_value P field t =
     (let v = field_value t field;
          v1 = (if str_includes field (str ''At'') \<or> field = str ''dueDate''
                then date_conv P v else v);
          v2 = (if field = str ''priority'' then priority_conv v1 else v1)
      in v2)"

definition compare :: "platform \<Rightarrow> jsstring \<Rightarrow> jsstring \<Rightarrow> todo \<Rightarrow> todo \<Rightarrow> int" where
  "compare P field order a b =
     (let aVal = sort_value P field a; bVal = sort_value P field b
      in if js_lt aVal bVal then (if order = str ''asc'' then - 1 else 1)
         else if js_lt bVal aVal then (if order = str ''asc'' then 1 else - 1)
         else 0)"

text \<open>
  \<open>Array.prototype.sort\<close> with a comparator is a stable sort: elements that compare as
  equal keep their order. For a comparator that orders the elements consistently the
  result is fixed by that; it is computed here by insertion from the right.
\<close>

fun insert_by :: "('a \<Rightarrow> 'a \<Rightarrow> int) \<Rightarrow> 'a \<Rightarrow> 'a list \<Rightarrow> 'a list" where
  "insert_by cmp x [] = [x]"
| "insert_by cmp x (y # ys) = (if cmp x y \<le> 0 then x # y # ys else y # insert_by cmp x ys)"

definition Array_sort :: "('a \<Rightarrow> 'a \<Rightarrow> int) \<Rightarrow> 'a list \<Rightarrow> 'a list" where
  "Array_sort cmp xs = foldr (insert_by cmp) xs []"

definition TodoList_sort :: "platform \<Rightarrow> jsstring option \<Rightarrow> jsstring option \<Rightarrow> todo_list \<Rightarrow> todo list" where
  "TodoList_sort P field order s =
     (let field' = (case field of None \<Rightarrow> str ''createdAt'' | Some f \<Rightarrow> f);
          order' = (case order of None \<Rightarrow> str ''desc'' | Some ord \<Rightarrow> ord)
      in Array_sort (compare P field' order') (todos s))"

section \<open>parseTags (src/js/utils/helpers.js)\<close>

text \<open>
  \<open>split(/[,\s]+/)\<close> cuts the string at every longest run of commas and white space;
  a run at the start or at the end leaves an empty piece there.
\<close>

definition is_sep :: "16 word \<Rightarrow> bool" where
  "is_sep c \<longleftrightarrow> c = 0x2C \<or> is_space c"

function split_runs :: "jsstring \<Rightarrow> jsstring \<Rightarrow> jsstring list" where
  "split_runs piece [] = [piece]"
| "split_runs piece (c # cs) =
     (if is_sep c then piece # split_runs [] (dropWhile is_sep cs)
      else split_runs (piece @ [c]) cs)"
  by pat_completeness auto
termination
  by (relation "measure (\<lambda>(piece, cs). length cs)")
     (auto simp: less_Suc_eq_le length_dropWhile_le)

definition parseTags :: "jsstring \<Rightarrow> jsstring list" where
  "parseTags tagString =
     (if tagString = [] then []
      else map (\<lambda>tag. if startsWith tag (str ''#'') then tag else str ''#'' @ tag)
             (filter (\<lambda>tag. length tag > 0)
                (map trim (split_runs [] tagString))))"

section \<open>What the properties are stated with\<close>

text \<open>
  \<open>date_like\<close>: the fields the comparator treats as dates. \<open>instant\<close>: the time value
  of such a field in milliseconds since the epoch, 0 when the field is absent (\<open>null\<close>,
  empty, or not a field at all). \<open>dates_parse\<close>: every date the entities hold in the
  field is one the platform can parse.
\<close>

definition date_like :: "jsstring \<Rightarrow> bool" where
  "date_like field \<longleftrightarrow> str_includes field (str ''At'') \<or> field = str ''dueDate''"

definition instant :: "platform \<Rightarrow> jsstring \<Rightarrow> todo \<Rightarrow> int" where
  "instant P field t =
     (case field_value t field of
        SStr x \<Rightarrow> (if x = [] then 0 else (case Date_getTime P x of None \<Rightarrow> 0 | Some ms \<Rightarrow> ms))
      | _ \<Rightarrow> 0)"

definition dates_parse :: "platform \<Rightarrow> jsstring \<Rightarrow> todo list \<Rightarrow> bool" where
  "dates_parse P field ts \<longleftrightarrow>
     (\<forall>t \<in> set ts. \<forall>x. field_value t field = SStr x \<and> x \<noteq> [] \<longrightarrow> Date_getTime P x \<noteq> None)"

text \<open>Concrete values for the examples: two clock readings and a platform.\<close>

definition may1 :: jsstring where
  "may1 = str ''2024-05-01T09:00:00.000Z''"

definition may2 :: jsstring where
  "may2 = str ''2024-05-02T09:00:00.000Z''"

definition may3 :: jsstring where
  "may3 = str ''2024-05-03T09:00:00.000Z''"

definition lower_ascii :: "jsstring \<Rightarrow> jsstring" where
  "lower_ascii x = map (\<lambda>c. if 0x41 \<le> c \<and> c \<le> 0x5A then c + 0x20 else c) x"

definition example_getTime :: "jsstring \<Rightarrow> int option" where
  "example_getTime x =
     (if x = str ''1969-12-31'' then Some (- 86400000)
      else if x = str ''2024-06-01'' then Some 1717200000000
      else if x = may1 then Some 1714554000000
      else if x = may2 then Some 1714640400000
      else None)"

definition stored_text :: jsstring where
  \<open>stored_text = str ''{"version":"0.9.0","todos":[{"title":"Buy milk"}]}''\<close>

definition example_parse :: "jsstring \<Rightarrow> exn + jsval" where
  "example_parse raw =
     (if raw = stored_text
      then Inr (JObj [(str ''version'', JStr (str ''0.9.0'')),
                      (str ''todos'', JArr [JObj [(str ''title'', JStr (str ''Buy milk''))]])])
      else Inl SyntaxError)"

definition example_platform :: platform where
  "example_platform = \<lparr>Date_getTime = example_getTime, JSON_parse = example_parse,
     JSON_stringify = (\<lambda>v. str ''{}''), toLowerCase = lower_ascii\<rparr>"

definition empty_storage :: local_storage where
  "empty_storage = \<lparr>items = [], quota = 5242880, denied = False\<rparr>"

text \<open>
  The task field of a parsed envelope: the sequence under \<open>todos\<close>, if the envelope is
  an object and holds a sequence there.
\<close>

definition task_field :: "jsval \<Rightarrow> jsval list option" where
  "task_field parsed =
     (case parsed of
        JObj kvs \<Rightarrow> (case map_of kvs (str ''todos'') of Some (JArr xs) \<Rightarrow> Some xs | _ \<Rightarrow> None)
      | _ \<Rightarrow> None)"

text \<open>Three entities, two of them with the same id, and a collection holding given entities.\<close>

definition milk :: todo where
  "milk = Todo_new (str ''1'') may1 may1 (no_fields\<lparr>f_title := Some (str ''Buy milk'')\<rparr>)"

definition call :: todo where
  "call = Todo_new (str ''2'') may1 may1 (no_fields\<lparr>f_title := Some (str ''Call mom'')\<rparr>)"

definition milk_again :: todo where
  "milk_again = Todo_new (str ''1'') may2 may2 (no_fields\<lparr>f_title := Some (str ''Buy more milk'')\<rparr>)"

definition example_list :: "todo list \<Rightarrow> todo_list" where
  "example_list ts = (TodoList_new (StorageService_new None) empty_storage)\<lparr>todos := ts\<rparr>"

text \<open>
  The criteria as the specification words them. A search string matches a text without
  regard to case when, both in lower case, it is a part of the text. An entity matches
  when it meets every criterion that is set: the status (\<open>all\<close> asks for nothing), the
  priority, the category, the tag and the search string, in the title or the description.
\<close>

definition ci_match :: "platform \<Rightarrow> jsstring \<Rightarrow> jsstring \<Rightarrow> bool" where
  "ci_match P q x \<longleftrightarrow> (\<exists>pre post. toLowerCase P x = pre @ toLowerCase P q @ post)"

definition matches_all :: "platform \<Rightarrow> criteria \<Rightarrow> todo \<Rightarrow> bool" where
  "matches_all P c t \<longleftrightarrow>
     (c_status c = Some (str ''active'') \<longrightarrow> \<not> completed t) \<and>
     (c_status c = Some (str ''completed'') \<longrightarrow> completed t) \<and>
     (\<forall>p. c_priority c = Some p \<and> p \<noteq> [] \<longrightarrow> priority t = p) \<and>
     (\<forall>x. c_category c = Some x \<and> x \<noteq> [] \<longrightarrow> x \<in> set (categories t)) \<and>
     (\<forall>x. c_tag c = Some x \<and> x \<noteq> [] \<longrightarrow> x \<in> set (tags t)) \<and>
     (\<forall>q. c_search c = Some q \<and> q \<noteq> [] \<longrightarrow>
          ci_match P q (title t) \<or> ci_match P q (description t))"

text \<open>Entities for the examples: by priority and completion, and by due date.\<close>

definition task :: "string \<Rightarrow> string \<Rightarrow> string \<Rightarrow> bool \<Rightarrow> todo" where
  "task i name p done =
     Todo_new (str i) may1 may1
       (no_fields\<lparr>f_title := Some (str name), f_priority := Some (str p),
          f_completed := Some done,
          f_completedAt := (if done then Some (Some may2) else None)\<rparr>)"

definition five_tasks :: "todo list" where
  "five_tasks = [task ''1'' ''Pay rent'' ''high'' False, task ''2'' ''File taxes'' ''high'' True,
     task ''3'' ''Book flight'' ''high'' False, task ''4'' ''Water plants'' ''low'' False,
     task ''5'' ''Renew passport'' ''high'' False]"

text \<open>The rank of a priority: high above medium above low.\<close>

definition rank :: "todo \<Rightarrow> int" where
  "rank t = (if priority t = str ''high'' then 3 else if priority t = str ''medium'' then 2 else 1)"

definition due_task :: "string \<Rightarrow> string \<Rightarrow> string option \<Rightarrow> todo" where
  "due_task i name d =
     Todo_new (str i) may1 may1
       (no_fields\<lparr>f_title := Some (str name), f_dueDate := Some (map_option str d)\<rparr>)"

section \<open>Completion of an entity\<close>





text \<open>
  C7, as the code has it. Toggling twice restores \<open>completed\<close>. \<open>completedAt\<close> is absent
  afterwards when the entity was not completed to begin with; an entity that was completed
  is completed again by the second toggle and carries the clock reading of that toggle.
\<close>

theorem toggleComplete_twice:
  "completed (Todo_toggleComplete d2 u2 (Todo_toggleComplete d1 u1 t)) = completed t \<and>
   completedAt (Todo_toggleComplete d2 u2 (Todo_toggleComplete d1 u1 t)) =
     (if completed t then Some d2 else None)"
  by (simp add: Todo_toggleComplete_def Let_def)

theorem toggleComplete_twice_witness:
  "completedAt (Todo_toggleComplete may2 may2 (Todo_toggleComplete may1 may1
      (Todo_new (str ''1'') may1 may1 (no_fields\<lparr>f_title := Some (str ''Buy milk'')\<rparr>)))) = None"
  using toggleComplete_twice [where ?d2.0 = may2 and ?u2.0 = may2 and ?d1.0 = may1 and ?u1.0 = may1
      and t = "Todo_new (str ''1'') may1 may1 (no_fields\<lparr>f_title := Some (str ''Buy milk'')\<rparr>)"]
  by (simp add: Todo_new_def no_fields_def or_false_def)

text \<open>
  C7 as stated fails for an entity that is completed: after two toggles its
  \<open>completedAt\<close> is not absent, it is the clock reading of the second toggle.
\<close>

theorem toggleComplete_twice_counterexample:
  "completed (task ''2'' ''File taxes'' ''high'' True) \<and>
   completedAt (Todo_toggleComplete may3 may3 (Todo_toggleComplete may3 may3
      (task ''2'' ''File taxes'' ''high'' True))) = Some may3"
  by (simp add: task_def Todo_new_def Todo_toggleComplete_def no_fields_def Let_def or_false_def)

section \<open>Tags\<close>

text \<open>
  C9, as the code has it. The \<open>#\<close> is put in front by \<open>parseTags\<close>, which the form
  applies to the text of its tag input: every tag it returns starts with \<open>#\<close>. The
  constructor and \<open>update\<close> store the tags they are given as they are, so an entity
  given the tags of \<open>parseTags\<close> has only tags that start with \<open>#\<close>.
\<close>

theorem tags_from_parseTags:
  "(\<forall>tag \<in> set (parseTags x). startsWith tag (str ''#'')) \<and>
   tags (Todo_new gen now_c now_u data) = (case f_tags data of None \<Rightarrow> [] | Some xs \<Rightarrow> xs) \<and>
   tags (Todo_update now_u data t) = (case f_tags data of None \<Rightarrow> tags t | Some xs \<Rightarrow> xs) \<and>
   (\<forall>tag \<in> set (tags (Todo_new gen now_c now_u (data\<lparr>f_tags := Some (parseTags x)\<rparr>))).
      startsWith tag (str ''#'')) \<and>
   (\<forall>tag \<in> set (tags (Todo_update now_u (data\<lparr>f_tags := Some (parseTags x)\<rparr>) t)).
      startsWith tag (str ''#''))"
proof -
  have h: "\<forall>tag \<in> set (parseTags x). startsWith tag (str ''#'')"
    by (auto simp: parseTags_def str_def split: if_splits)
  have n: "tags (Todo_new gen now_c now_u d) = (case f_tags d of None \<Rightarrow> [] | Some xs \<Rightarrow> xs)" for d
    by (simp add: Todo_new_def or_empty_def)
  have u: "tags (Todo_update now_u d t) = (case f_tags d of None \<Rightarrow> tags t | Some xs \<Rightarrow> xs)" for d
    by (simp add: Todo_update_def Let_def assign_def)
  show ?thesis using h by (simp add: n u)
qed

theorem tags_from_parseTags_witness:
  "parseTags (str ''work, #home  urgent,'') = [str ''#work'', str ''#home'', str ''#urgent''] \<and>
   tags (Todo_new (str ''1'') may1 may1
        (no_fields\<lparr>f_tags := Some (parseTags (str ''work, #home  urgent,''))\<rparr>)) =
     [str ''#work'', str ''#home'', str ''#urgent''] \<and>
   startsWith (str ''#work'') (str ''#'') \<and> startsWith (str ''#urgent'') (str ''#'')"
proof -
  have p: "parseTags (str ''work, #home  urgent,'') = [str ''#work'', str ''#home'', str ''#urgent'']"
    by (simp add: parseTags_def str_def is_sep_def is_space_def trim_def)
  show ?thesis
    using tags_from_parseTags [where x = "str ''work, #home  urgent,''" and gen = "str ''1''"
        and now_c = may1 and now_u = may1
        and data = "no_fields\<lparr>f_tags := Some (parseTags (str ''work, #home  urgent,''))\<rparr>"]
    by (simp add: p)
qed

text \<open>
  C9 as stated fails: the constructor keeps a tag without \<open>#\<close> as it is.
\<close>

theorem tags_counterexample:
  "tags (Todo_new (str ''1'') may1 may1 (no_fields\<lparr>f_tags := Some [str ''work'']\<rparr>)) = [str ''work'']
   \<and> \<not> startsWith (str ''work'') (str ''#'')"
  by (simp add: Todo_new_def no_fields_def or_empty_def str_def)

section \<open>Loading from the store\<close>

lemma object_cases:
  "(truthy v \<and> typeof v = str ''object'') = ((\<exists>xs. v = JArr xs) \<or> (\<exists>kvs. v = JObj kvs))"
  by (cases v) (simp_all add: str_def)

lemma load_try_parsed:
  assumes "getItem ls (key svc) = Inr (Some raw)" "raw \<noteq> []" "JSON_parse P raw = Inr v"
  shows "fst (load_try P svc ls) = Inr (case task_field v of None \<Rightarrow> [] | Some xs \<Rightarrow> xs)"
proof (cases "truthy v \<and> typeof v = str ''object''")
  case False
  then have "task_field v = None"
    unfolding object_cases by (cases v) (simp_all add: task_field_def)
  then show ?thesis using assms False by (simp add: load_try_def)
next
  case True
  then consider xs where "v = JArr xs" | kvs where "v = JObj kvs"
    unfolding object_cases by blast
  then show ?thesis
  proof cases
    case 1
    then show ?thesis using assms True by (simp add: load_try_def task_field_def Let_def)
  next
    case 2
    then show ?thesis using assms True
      by (simp add: load_try_def task_field_def Let_def split: option.splits jsval.splits)
  qed
qed

lemma load_fst:
  "fst (StorageService_load P svc ls) = Inr (case fst (load_try P svc ls) of Inl e \<Rightarrow> [] | Inr xs \<Rightarrow> xs)"
  by (simp add: StorageService_load_def split: prod.splits sum.splits)

text \<open>
  C3. \<open>load\<close> always returns a sequence. With \<open>JSON.parse\<close> raising on the empty
  text, as it does, the sequence is empty when the key is absent, when the stored text
  does not parse and when the parsed value has no sequence as its task field; otherwise
  it is the stored task sequence. The version of the service has no part in the result.
\<close>

theorem load_never_raises:
  assumes "JSON_parse P [] = Inl e0"
  shows "(\<exists>xs. fst (StorageService_load P svc ls) = Inr xs) \<and>
         (getItem ls (key svc) = Inr None \<longrightarrow> fst (StorageService_load P svc ls) = Inr []) \<and>
         (\<forall>raw e. getItem ls (key svc) = Inr (Some raw) \<and> JSON_parse P raw = Inl e \<longrightarrow>
            fst (StorageService_load P svc ls) = Inr []) \<and>
         (\<forall>raw v. getItem ls (key svc) = Inr (Some raw) \<and> JSON_parse P raw = Inr v \<and>
              task_field v = None \<longrightarrow>
            fst (StorageService_load P svc ls) = Inr []) \<and>
         (\<forall>raw v xs. getItem ls (key svc) = Inr (Some raw) \<and> JSON_parse P raw = Inr v \<and>
              task_field v = Some xs \<longrightarrow>
            fst (StorageService_load P svc ls) = Inr xs) \<and>
         fst (StorageService_load P (svc\<lparr>version := ver\<rparr>) ls) = fst (StorageService_load P svc ls)"
proof (intro conjI allI impI)
  show "\<exists>xs. fst (StorageService_load P svc ls) = Inr xs" by (simp add: load_fst)
next
  assume "getItem ls (key svc) = Inr None"
  then show "fst (StorageService_load P svc ls) = Inr []" by (simp add: load_fst load_try_def)
next
  fix raw e assume "getItem ls (key svc) = Inr (Some raw) \<and> JSON_parse P raw = Inl e"
  then show "fst (StorageService_load P svc ls) = Inr []" by (simp add: load_fst load_try_def)
next
  fix raw v assume a: "getItem ls (key svc) = Inr (Some raw) \<and> JSON_parse P raw = Inr v \<and> task_field v = None"
  then have "raw \<noteq> []" using assms by auto
  then show "fst (StorageService_load P svc ls) = Inr []"
    using a load_try_parsed[of ls svc raw P v] by (simp add: load_fst)
next
  fix raw v xs assume a: "getItem ls (key svc) = Inr (Some raw) \<and> JSON_parse P raw = Inr v \<and> task_field v = Some xs"
  then have "raw \<noteq> []" using assms by auto
  then show "fst (StorageService_load P svc ls) = Inr xs"
    using a load_try_parsed[of ls svc raw P v] by (simp add: load_fst)
next
  show "fst (StorageService_load P (svc\<lparr>version := ver\<rparr>) ls) = fst (StorageService_load P svc ls)"
  proof (cases "getItem ls (key svc)")
    case (Inl e)
    then show ?thesis by (simp add: load_fst load_try_def)
  next
    case (Inr r)
    show ?thesis
    proof (cases r)
      case None
      then show ?thesis using Inr by (simp add: load_fst load_try_def)
    next
      case (Some raw)
      show ?thesis
      proof (cases "raw = []")
        case True
        then show ?thesis using Inr Some by (simp add: load_fst load_try_def)
      next
        case False
        show ?thesis
        proof (cases "JSON_parse P raw")
          case (Inl e)
          then show ?thesis using Inr Some False by (simp add: load_fst load_try_def)
        next
          case (Inr v)
          have 1: "getItem ls (key (svc\<lparr>version := ver\<rparr>)) = Inr (Some raw)"
            using \<open>getItem ls (key svc) = Inr r\<close> Some by simp
          have 2: "getItem ls (key svc) = Inr (Some raw)"
            using \<open>getItem ls (key svc) = Inr r\<close> Some by simp
          show ?thesis
            using load_try_parsed[OF 1 False Inr] load_try_parsed[OF 2 False Inr]
            by (simp add: load_fst)
        qed
      qed
    qed
  qed
qed


lemma stored_text_ne: "stored_text \<noteq> []"
  by (simp add: stored_text_def str_def)

text \<open>
  A stored envelope of version 0.9.0, read by the service of version 1.0.0.
\<close>

theorem load_never_raises_witness:
  "fst (StorageService_load example_platform (StorageService_new None)
          (empty_storage\<lparr>items := [(str ''todoApp'', stored_text)]\<rparr>)) =
     Inr [JObj [(str ''title'', JStr (str ''Buy milk''))]]"
proof -
  let ?ls = "empty_storage\<lparr>items := [(str ''todoApp'', stored_text)]\<rparr>"
  let ?v = "JObj [(str ''version'', JStr (str ''0.9.0'')),
                      (str ''todos'', JArr [JObj [(str ''title'', JStr (str ''Buy milk''))]])]"
  have 0: "JSON_parse example_platform [] = Inl SyntaxError"
    using stored_text_ne by (simp add: example_platform_def example_parse_def)
  have 1: "getItem ?ls (key (StorageService_new None)) = Inr (Some stored_text)"
    by (simp add: getItem_def empty_storage_def StorageService_new_def)
  have 2: "JSON_parse example_platform stored_text = Inr ?v"
    by (simp add: example_platform_def example_parse_def)
  have 3: "task_field ?v = Some [JObj [(str ''title'', JStr (str ''Buy milk''))]]"
    by (simp add: task_field_def str_def)
  show ?thesis
    using load_never_raises [OF 0, of "StorageService_new None" ?ls] 1 2 3 by blast
qed


section \<open>Adding, updating and deleting in a collection\<close>

lemma example_ids: "todo_id milk = str ''1''" "todo_id call = str ''2''" "todo_id milk_again = str ''1''"
  by (simp_all add: milk_def call_def milk_again_def Todo_new_def no_fields_def or_str_def str_def)

lemma ids_ne: "str ''2'' \<noteq> str ''1''" "str ''3'' \<noteq> str ''1''" "str ''3'' \<noteq> str ''2''"
  by (simp_all add: str_def)

lemma todos_notify: "todos (notify s) = todos s"
  by (simp add: notify_def)

lemma todos_save: "todos (TodoList_save P now_s s) = todos s"
  by (simp add: TodoList_save_def todos_notify split: prod.splits)

lemma find_filter_neq: "find (\<lambda>t. todo_id t = i) (filter (\<lambda>t. todo_id t \<noteq> i) ts) = None"
  by (induction ts) auto

lemma length_filter_neq:
  "(length (filter (\<lambda>t. todo_id t \<noteq> i) ts) \<noteq> length ts) = (\<exists>t \<in> set ts. todo_id t = i)"
proof -
  have "length (filter (\<lambda>t. todo_id t \<noteq> i) ts) + length (filter (\<lambda>t. \<not> todo_id t \<noteq> i) ts)
          = length ts"
    by (rule sum_length_filter_compl)
  then have "(length (filter (\<lambda>t. todo_id t \<noteq> i) ts) \<noteq> length ts) =
               (filter (\<lambda>t. \<not> todo_id t \<noteq> i) ts \<noteq> [])"
    by (cases "filter (\<lambda>t. \<not> todo_id t \<noteq> i) ts") auto
  also have "\<dots> = (\<exists>t \<in> set ts. todo_id t = i)"
    by (simp add: filter_empty_conv)
  finally show ?thesis .
qed

lemma filter_none: "\<not> (\<exists>t \<in> set ts. todo_id t = i) \<Longrightarrow> filter (\<lambda>t. todo_id t \<noteq> i) ts = ts"
  by (induction ts) auto

text \<open>
  C10. After \<open>delete\<close> no entity with the id is left, however many there were:
  \<open>findById\<close> finds none, and the other entities are all there in their order.
  \<open>delete\<close> returns true exactly when the collection had an entity with the id; then
  the state is what \<open>save\<close> makes of the remaining entities, and otherwise the state is
  as it was.
\<close>

theorem delete_removes_every_match:
  "TodoList_findById i (snd (TodoList_delete P now_s i s)) = None \<and>
   todos (snd (TodoList_delete P now_s i s)) = filter (\<lambda>t. todo_id t \<noteq> i) (todos s) \<and>
   (fst (TodoList_delete P now_s i s) \<longleftrightarrow> (\<exists>t \<in> set (todos s). todo_id t = i)) \<and>
   ((\<exists>t \<in> set (todos s). todo_id t = i) \<longrightarrow>
      snd (TodoList_delete P now_s i s) =
        TodoList_save P now_s (s\<lparr>todos := filter (\<lambda>t. todo_id t \<noteq> i) (todos s)\<rparr>)) \<and>
   (\<not> (\<exists>t \<in> set (todos s). todo_id t = i) \<longrightarrow> snd (TodoList_delete P now_s i s) = s)"
proof -
  have t: "todos (snd (TodoList_delete P now_s i s)) = filter (\<lambda>t. todo_id t \<noteq> i) (todos s)"
    by (simp add: TodoList_delete_def Let_def todos_save)
  have f: "TodoList_findById i (snd (TodoList_delete P now_s i s)) = None"
    unfolding TodoList_findById_def t by (rule find_filter_neq)
  have r: "fst (TodoList_delete P now_s i s) \<longleftrightarrow> (\<exists>t \<in> set (todos s). todo_id t = i)"
    by (simp add: TodoList_delete_def Let_def length_filter_neq)
  have y: "(\<exists>t \<in> set (todos s). todo_id t = i) \<longrightarrow>
      snd (TodoList_delete P now_s i s) =
        TodoList_save P now_s (s\<lparr>todos := filter (\<lambda>t. todo_id t \<noteq> i) (todos s)\<rparr>)"
    by (simp add: TodoList_delete_def Let_def length_filter_neq)
  have z: "\<not> (\<exists>t \<in> set (todos s). todo_id t = i) \<longrightarrow> snd (TodoList_delete P now_s i s) = s"
  proof
    assume a: "\<not> (\<exists>t \<in> set (todos s). todo_id t = i)"
    then have "length (filter (\<lambda>t. todo_id t \<noteq> i) (todos s)) = length (todos s)"
      using length_filter_neq[of i "todos s"] by blast
    then show "snd (TodoList_delete P now_s i s) = s"
      using filter_none[OF a] by (simp add: TodoList_delete_def Let_def)
  qed
  from f t r y z show ?thesis by blast
qed

text \<open>
  A collection with two entities of id 1: both are gone after \<open>delete\<close>. A collection
  where the id occurs once: that entity is gone. An id that does not occur: \<open>delete\<close>
  returns false and nothing changes.
\<close>

theorem delete_removes_every_match_witness:
  "fst (TodoList_delete example_platform may2 (str ''1'') (example_list [milk, call, milk_again])) \<and>
   TodoList_findById (str ''1'')
     (snd (TodoList_delete example_platform may2 (str ''1'') (example_list [milk, call, milk_again]))) = None \<and>
   todos (snd (TodoList_delete example_platform may2 (str ''1'') (example_list [milk, call, milk_again]))) = [call] \<and>
   fst (TodoList_delete example_platform may2 (str ''2'') (example_list [milk, call])) \<and>
   TodoList_findById (str ''2'')
     (snd (TodoList_delete example_platform may2 (str ''2'') (example_list [milk, call]))) = None \<and>
   todos (snd (TodoList_delete example_platform may2 (str ''2'') (example_list [milk, call]))) = [milk] \<and>
   TodoList_delete example_platform may2 (str ''3'') (example_list [milk, call]) =
     (False, example_list [milk, call])"
proof -
  note d1 = delete_removes_every_match [where P = example_platform and now_s = may2
      and i = "str ''1''" and s = "example_list [milk, call, milk_again]"]
  note d2 = delete_removes_every_match [where P = example_platform and now_s = may2
      and i = "str ''2''" and s = "example_list [milk, call]"]
  note d3 = delete_removes_every_match [where P = example_platform and now_s = may2
      and i = "str ''3''" and s = "example_list [milk, call]"]
  have 1: "fst (TodoList_delete example_platform may2 (str ''1'') (example_list [milk, call, milk_again])) \<and>
   TodoList_findById (str ''1'')
     (snd (TodoList_delete example_platform may2 (str ''1'') (example_list [milk, call, milk_again]))) = None \<and>
   todos (snd (TodoList_delete example_platform may2 (str ''1'') (example_list [milk, call, milk_again]))) = [call]"
    using d1 [THEN conjunct1] d1 [THEN conjunct2, THEN conjunct1]
      d1 [THEN conjunct2, THEN conjunct2, THEN conjunct1]
    by (simp add: example_list_def example_ids ids_ne)
  have 2: "fst (TodoList_delete example_platform may2 (str ''2'') (example_list [milk, call])) \<and>
   TodoList_findById (str ''2'')
     (snd (TodoList_delete example_platform may2 (str ''2'') (example_list [milk, call]))) = None \<and>
   todos (snd (TodoList_delete example_platform may2 (str ''2'') (example_list [milk, call]))) = [milk]"
    using d2 [THEN conjunct1] d2 [THEN conjunct2, THEN conjunct1]
      d2 [THEN conjunct2, THEN conjunct2, THEN conjunct1]
    by (simp add: example_list_def example_ids ids_ne ids_ne[symmetric])
  have 3: "TodoList_delete example_platform may2 (str ''3'') (example_list [milk, call]) =
     (False, example_list [milk, call])"
    using d3 [THEN conjunct2, THEN conjunct2, THEN conjunct1]
      d3 [THEN conjunct2, THEN conjunct2, THEN conjunct2, THEN conjunct2]
    by (simp add: example_list_def example_ids ids_ne ids_ne[symmetric] prod_eq_iff)
  from 1 2 3 show ?thesis by simp
qed

lemma notify_storage: "localStorage (notify s) = localStorage s"
  by (simp add: notify_def)

lemma save_storage:
  "localStorage (TodoList_save P now_s s) =
     (case setItem (localStorage s) (key (storageService s))
             (JSON_stringify P (envelope (storageService s) now_s (map Todo_toJSON (todos s)))) of
        Inl e \<Rightarrow> localStorage s | Inr ls' \<Rightarrow> ls')"
  by (simp add: TodoList_save_def StorageService_save_def Let_def notify_storage
      split: prod.splits sum.splits)

lemma map_of_put: "map_of (put k v kvs) k = Some v"
  by (induction kvs) auto

lemma setItem_getItem: "setItem ls k v = Inr ls' \<Longrightarrow> getItem ls' k = Inr (Some v)"
  by (auto simp: setItem_def getItem_def map_of_put split: if_splits)

text \<open>
  C2. When the constructed entity does not validate, \<open>add\<close> raises an error whose
  message is the messages joined by a comma and a space, and leaves the whole state as it
  was: the entities, the store, the trace. When it validates, \<open>add\<close> returns the entity,
  the entities are the old ones followed by the new one, and the state is what \<open>save\<close>
  makes of that: where the store accepts the write, the store holds the text of the
  envelope of all entities under the key.
\<close>

theorem add_validates:
  "(\<not> isValid (Todo_validate P (Todo_new gen now_c now_u data)) \<longrightarrow>
      TodoList_add P gen now_c now_u now_s data s =
        (Inl (Error (join (str '', '') (errors (Todo_validate P (Todo_new gen now_c now_u data))))), s)) \<and>
   (isValid (Todo_validate P (Todo_new gen now_c now_u data)) \<longrightarrow>
      fst (TodoList_add P gen now_c now_u now_s data s) = Inr (Todo_new gen now_c now_u data) \<and>
      todos (snd (TodoList_add P gen now_c now_u now_s data s)) =
        todos s @ [Todo_new gen now_c now_u data] \<and>
      snd (TodoList_add P gen now_c now_u now_s data s) =
        TodoList_save P now_s (s\<lparr>todos := todos s @ [Todo_new gen now_c now_u data]\<rparr>) \<and>
      (\<forall>ls'. setItem (localStorage s) (key (storageService s))
                (JSON_stringify P (envelope (storageService s) now_s
                   (map Todo_toJSON (todos s @ [Todo_new gen now_c now_u data])))) = Inr ls' \<longrightarrow>
         localStorage (snd (TodoList_add P gen now_c now_u now_s data s)) = ls' \<and>
         getItem ls' (key (storageService s)) =
           Inr (Some (JSON_stringify P (envelope (storageService s) now_s
                   (map Todo_toJSON (todos s @ [Todo_new gen now_c now_u data])))))))"
  by (auto simp: TodoList_add_def Let_def todos_save save_storage setItem_getItem)


lemma validate_call:
  "Todo_validate example_platform call = \<lparr>isValid = True, errors = []\<rparr>"
  by (simp add: Todo_validate_def call_def Todo_new_def no_fields_def or_str_def or_null_def
      push_if_def trim_def is_space_def str_def Let_def)

lemma validate_urgent:
  "Todo_validate example_platform
     (Todo_new (str ''2'') may1 may1 (no_fields\<lparr>f_priority := Some (str ''urgent'')\<rparr>)) =
     \<lparr>isValid = False, errors = [msg_title_required, msg_priority_invalid]\<rparr>"
  by (simp add: Todo_validate_def Todo_new_def no_fields_def or_str_def or_null_def
      push_if_def trim_def is_space_def str_def Let_def)

text \<open>
  An input with no title and an unknown priority raises with both messages; an input with
  a title is appended and written to the store.
\<close>

theorem add_validates_witness:
  "TodoList_add example_platform (str ''2'') may1 may1 may2
      (no_fields\<lparr>f_priority := Some (str ''urgent'')\<rparr>) (example_list [milk]) =
     (Inl (Error (msg_title_required @ str '', '' @ msg_priority_invalid)), example_list [milk]) \<and>
   fst (TodoList_add example_platform (str ''2'') may1 may1 may2
      (no_fields\<lparr>f_title := Some (str ''Call mom'')\<rparr>) (example_list [milk])) = Inr call \<and>
   todos (snd (TodoList_add example_platform (str ''2'') may1 may1 may2
      (no_fields\<lparr>f_title := Some (str ''Call mom'')\<rparr>) (example_list [milk]))) = [milk, call] \<and>
   items (localStorage (snd (TodoList_add example_platform (str ''2'') may1 may1 may2
      (no_fields\<lparr>f_title := Some (str ''Call mom'')\<rparr>) (example_list [milk])))) =
     [(str ''todoApp'', str ''{}'')]"
proof -
  let ?s = "example_list [milk]"
  have w: "setItem (localStorage ?s) (key (storageService ?s)) (str ''{}'') =
             Inr (empty_storage\<lparr>items := [(str ''todoApp'', str ''{}'')]\<rparr>)"
    by (simp add: setItem_def example_list_def TodoList_new_def StorageService_new_def
        empty_storage_def used_def str_def)
  have j: "JSON_stringify example_platform v = str ''{}''" for v
    by (simp add: example_platform_def)
  have a: "TodoList_add example_platform (str ''2'') may1 may1 may2
      (no_fields\<lparr>f_priority := Some (str ''urgent'')\<rparr>) ?s =
     (Inl (Error (msg_title_required @ str '', '' @ msg_priority_invalid)), ?s)"
    using add_validates [where P = example_platform and gen = "str ''2''" and now_c = may1
        and now_u = may1 and now_s = may2 and data = "no_fields\<lparr>f_priority := Some (str ''urgent'')\<rparr>"
        and s = ?s]
    by (simp add: validate_urgent)
  let ?r = "TodoList_add example_platform (str ''2'') may1 may1 may2
      (no_fields\<lparr>f_title := Some (str ''Call mom'')\<rparr>) ?s"
  have n: "Todo_new (str ''2'') may1 may1 (no_fields\<lparr>f_title := Some (str ''Call mom'')\<rparr>) = call"
    by (simp add: call_def)
  have t: "todos ?s = [milk]" by (simp add: example_list_def)
  have b: "fst ?r = Inr call \<and> todos (snd ?r) = [milk, call] \<and>
      localStorage (snd ?r) = empty_storage\<lparr>items := [(str ''todoApp'', str ''{}'')]\<rparr>"
    using add_validates [where P = example_platform and gen = "str ''2''" and now_c = may1
        and now_u = may1 and now_s = may2 and data = "no_fields\<lparr>f_title := Some (str ''Call mom'')\<rparr>"
        and s = ?s] validate_call w
    unfolding n j t by (simp add: todos_save save_storage j)
  then have "items (localStorage (snd ?r)) = [(str ''todoApp'', str ''{}'')]" by simp
  with a b show ?thesis by simp
qed

lemma find_replace:
  "find (\<lambda>t. todo_id t = i) ts = Some t0 \<Longrightarrow>
     \<exists>k<length ts. ts ! k = t0 \<and> todo_id t0 = i \<and> (\<forall>j<k. todo_id (ts ! j) \<noteq> i) \<and>
       replace_first i t' ts = ts[k := t']"
proof (induction ts)
  case Nil
  then show ?case by simp
next
  case (Cons t ts)
  show ?case
  proof (cases "todo_id t = i")
    case True
    then have "t = t0" using Cons.prems by simp
    then show ?thesis using True by (intro exI[of _ 0]) simp
  next
    case False
    then have "find (\<lambda>t. todo_id t = i) ts = Some t0" using Cons.prems by simp
    from Cons.IH[OF this] obtain k where "k < length ts" "ts ! k = t0" "todo_id t0 = i"
      "\<forall>j<k. todo_id (ts ! j) \<noteq> i" "replace_first i t' ts = ts[k := t']" by blast
    then show ?thesis using False by (intro exI[of _ "Suc k"]) (auto simp: less_Suc_eq_0_disj)
  qed
qed

lemma find_update_first:
  "k < length ts \<Longrightarrow> \<forall>j<k. todo_id (ts ! j) \<noteq> i \<Longrightarrow> todo_id t' = i \<Longrightarrow>
     find (\<lambda>t. todo_id t = i) (ts[k := t']) = Some t'"
proof (induction ts arbitrary: k)
  case Nil
  then show ?case by simp
next
  case (Cons t ts)
  show ?case
  proof (cases k)
    case 0
    then show ?thesis using Cons.prems by simp
  next
    case (Suc n)
    have "todo_id t \<noteq> i" using Cons.prems(2) Suc by auto
    moreover have "find (\<lambda>t. todo_id t = i) (ts[n := t']) = Some t'"
      using Cons.prems Suc by (intro Cons.IH) auto
    ultimately show ?thesis using Suc by simp
  qed
qed

lemma find_some: "\<exists>t \<in> set ts. todo_id t = i \<Longrightarrow> \<exists>t0. find (\<lambda>t. todo_id t = i) ts = Some t0"
  by (induction ts) auto

lemma update_title_only:
  "Todo_update now_u (no_fields\<lparr>f_title := Some []\<rparr>) t0 = t0\<lparr>title := [], updatedAt := now_u\<rparr>"
  by (simp add: Todo_update_def Let_def no_fields_def assign_def)

lemma validate_no_title:
  "title t = [] \<Longrightarrow> \<not> isValid (Todo_validate P t) \<and> hd (errors (Todo_validate P t)) = msg_title_required
     \<and> msg_title_required \<in> set (errors (Todo_validate P t))"
  by (simp add: Todo_validate_def Let_def push_if_def)


text \<open>
  C4. In a collection that has an entity with the id, \<open>update\<close> with an empty title
  raises the error of \<open>validate\<close>. The state it leaves differs from the old one in one
  place of the array: the first entity with the id, which now has the empty title (and
  the new \<open>updatedAt\<close>). Every other place of the array, the store and the trace are
  as before; the changed entity is what \<open>findById\<close> returns, and \<open>validate\<close> on it
  fails, with the missing title as its first message.
\<close>

theorem update_empty_title_no_rollback:
  assumes "\<exists>t \<in> set (todos s). todo_id t = i"
  shows "\<exists>t0 k. TodoList_findById i s = Some t0 \<and> k < length (todos s) \<and> todos s ! k = t0 \<and>
     TodoList_update P now_u now_s i (no_fields\<lparr>f_title := Some []\<rparr>) s =
       (Inl (Error (join (str '', '') (errors (Todo_validate P (t0\<lparr>title := [], updatedAt := now_u\<rparr>))))),
        s\<lparr>todos := (todos s)[k := t0\<lparr>title := [], updatedAt := now_u\<rparr>]\<rparr>) \<and>
     (\<forall>j < length (todos s). j \<noteq> k \<longrightarrow>
        (todos (snd (TodoList_update P now_u now_s i (no_fields\<lparr>f_title := Some []\<rparr>) s))) ! j
          = todos s ! j) \<and>
     TodoList_findById i (snd (TodoList_update P now_u now_s i (no_fields\<lparr>f_title := Some []\<rparr>) s))
       = Some (t0\<lparr>title := [], updatedAt := now_u\<rparr>) \<and>
     \<not> isValid (Todo_validate P (t0\<lparr>title := [], updatedAt := now_u\<rparr>)) \<and>
     hd (errors (Todo_validate P (t0\<lparr>title := [], updatedAt := now_u\<rparr>))) = msg_title_required"
proof -
  from find_some[OF assms] obtain t0 where f: "find (\<lambda>t. todo_id t = i) (todos s) = Some t0"
    by blast
  let ?t1 = "t0\<lparr>title := [], updatedAt := now_u\<rparr>"
  from find_replace[OF f, of ?t1] obtain k where k: "k < length (todos s)" "todos s ! k = t0"
    "todo_id t0 = i" "\<forall>j<k. todo_id (todos s ! j) \<noteq> i"
    "replace_first i ?t1 (todos s) = (todos s)[k := ?t1]" by blast
  have v: "\<not> isValid (Todo_validate P ?t1)" "hd (errors (Todo_validate P ?t1)) = msg_title_required"
    using validate_no_title[of ?t1 P] by simp_all
  have u: "TodoList_update P now_u now_s i (no_fields\<lparr>f_title := Some []\<rparr>) s =
       (Inl (Error (join (str '', '') (errors (Todo_validate P ?t1)))),
        s\<lparr>todos := (todos s)[k := ?t1]\<rparr>)"
    using f k(5) v(1) by (simp add: TodoList_update_def TodoList_findById_def update_title_only Let_def)
  have o: "\<forall>j < length (todos s). j \<noteq> k \<longrightarrow>
        (todos (snd (TodoList_update P now_u now_s i (no_fields\<lparr>f_title := Some []\<rparr>) s))) ! j
          = todos s ! j"
    by (simp add: u)
  have g: "TodoList_findById i (snd (TodoList_update P now_u now_s i (no_fields\<lparr>f_title := Some []\<rparr>) s))
       = Some ?t1"
    using k by (simp add: u TodoList_findById_def find_update_first)
  show ?thesis
    using f k(1,2) u o g v unfolding TodoList_findById_def by blast
qed


lemma validate_call_untitled:
  "errors (Todo_validate example_platform (call\<lparr>title := [], updatedAt := may2\<rparr>)) = [msg_title_required]"
  by (simp add: Todo_validate_def call_def Todo_new_def no_fields_def or_str_def or_null_def
      push_if_def str_def Let_def)

text \<open>
  Two entities; the second is updated. The first is as it was, the second has lost its
  title.
\<close>

theorem update_empty_title_no_rollback_witness:
  "fst (TodoList_update example_platform may2 may2 (str ''2'') (no_fields\<lparr>f_title := Some []\<rparr>)
          (example_list [milk, call])) = Inl (Error msg_title_required) \<and>
   todos (snd (TodoList_update example_platform may2 may2 (str ''2'') (no_fields\<lparr>f_title := Some []\<rparr>)
          (example_list [milk, call]))) ! 0 = milk \<and>
   TodoList_findById (str ''2'')
      (snd (TodoList_update example_platform may2 may2 (str ''2'') (no_fields\<lparr>f_title := Some []\<rparr>)
          (example_list [milk, call]))) = Some (call\<lparr>title := [], updatedAt := may2\<rparr>)"
proof -
  let ?s = "example_list [milk, call]"
  let ?r = "TodoList_update example_platform may2 may2 (str ''2'') (no_fields\<lparr>f_title := Some []\<rparr>) ?s"
  have h: "\<exists>t \<in> set (todos ?s). todo_id t = str ''2''"
    by (simp add: example_list_def example_ids)
  have fb: "TodoList_findById (str ''2'') ?s = Some call"
    by (simp add: TodoList_findById_def example_list_def example_ids ids_ne[symmetric])
  have ne: "milk \<noteq> call" using example_ids ids_ne by auto
  from update_empty_title_no_rollback [OF h, of example_platform may2 may2]
  obtain t0 k where 1: "TodoList_findById (str ''2'') ?s = Some t0" "k < length (todos ?s)"
      "todos ?s ! k = t0"
    and 2: "?r = (Inl (Error (join (str '', '') (errors (Todo_validate example_platform
                  (t0\<lparr>title := [], updatedAt := may2\<rparr>))))),
               ?s\<lparr>todos := (todos ?s)[k := t0\<lparr>title := [], updatedAt := may2\<rparr>]\<rparr>)"
    and 3: "\<forall>j < length (todos ?s). j \<noteq> k \<longrightarrow> todos (snd ?r) ! j = todos ?s ! j"
    and 4: "TodoList_findById (str ''2'') (snd ?r) = Some (t0\<lparr>title := [], updatedAt := may2\<rparr>)"
    by blast
  have t0: "t0 = call" using 1(1) fb by simp
  have "k \<noteq> 0" using 1(3) t0 ne by (cases k) (auto simp: example_list_def)
  then have "todos (snd ?r) ! 0 = milk" using 3 by (simp add: example_list_def)
  moreover have "fst ?r = Inl (Error msg_title_required)"
    by (simp add: 2 t0 validate_call_untitled)
  ultimately show ?thesis using 4 t0 by simp
qed


section \<open>Filtering\<close>

lemma startsWith_iff: "startsWith x p \<longleftrightarrow> (\<exists>post. x = p @ post)"
  by (induction x p rule: startsWith.induct) auto

lemma str_includes_iff: "str_includes x p \<longleftrightarrow> (\<exists>pre post. x = pre @ p @ post)"
proof (induction x)
  case Nil
  then show ?case by simp
next
  case (Cons c cs)
  show ?case
  proof
    assume "str_includes (c # cs) p"
    then consider "startsWith (c # cs) p" | "str_includes cs p" by auto
    then show "\<exists>pre post. c # cs = pre @ p @ post"
    proof cases
      case 1
      then obtain post where "c # cs = p @ post" unfolding startsWith_iff by blast
      then have "c # cs = [] @ p @ post" by simp
      then show ?thesis by blast
    next
      case 2
      then obtain pre post where "cs = pre @ p @ post" using Cons.IH by blast
      then have "c # cs = (c # pre) @ p @ post" by simp
      then show ?thesis by blast
    qed
  next
    assume "\<exists>pre post. c # cs = pre @ p @ post"
    then obtain pre post where e: "c # cs = pre @ p @ post" by blast
    show "str_includes (c # cs) p"
    proof (cases pre)
      case Nil
      then have "startsWith (c # cs) p" using e unfolding startsWith_iff by auto
      then show ?thesis by simp
    next
      case (Cons d ds)
      then have "cs = ds @ p @ post" using e by simp
      then have "str_includes cs p" using Cons.IH by blast
      then show ?thesis by simp
    qed
  qed
qed

lemma given_iff: "given v p \<longleftrightarrow> (\<exists>x. v = Some x \<and> x \<noteq> [] \<and> p x)"
  by (cases v) (auto simp: given_def)

lemma keeps_matches_all: "keeps P c t = matches_all P c t"
  unfolding keeps_def matches_all_def given_iff ci_match_def str_includes_iff Let_def
  by auto


lemma five_active_high:
  "filter (keeps P (no_criteria\<lparr>c_status := Some (str ''active''), c_priority := Some (str ''high'')\<rparr>))
     five_tasks =
   [task ''1'' ''Pay rent'' ''high'' False, task ''3'' ''Book flight'' ''high'' False,
    task ''5'' ''Renew passport'' ''high'' False]"
  by (simp add: keeps_def given_def five_tasks_def task_def Todo_new_def no_fields_def
      no_criteria_def or_str_def or_false_def str_def)

text \<open>
  C6. \<open>filter\<close> returns, in the order of the collection, exactly the entities that
  match all the criteria; the status \<open>all\<close> and a missing criteria record keep every
  entity. Of the five tasks, three high and open, one high and completed, one low and
  open, the criteria \<open>active\<close> and \<open>high\<close> keep the three high and open ones in their
  order.
\<close>

theorem filter_conjunctive:
  "TodoList_filter P (Some c) s = filter (matches_all P c) (todos s) \<and>
   TodoList_filter P (Some (no_criteria\<lparr>c_status := Some (str ''all'')\<rparr>)) s = todos s \<and>
   TodoList_filter P None s = todos s \<and>
   TodoList_filter P
     (Some (no_criteria\<lparr>c_status := Some (str ''active''), c_priority := Some (str ''high'')\<rparr>))
     (s\<lparr>todos := five_tasks\<rparr>) =
   [task ''1'' ''Pay rent'' ''high'' False, task ''3'' ''Book flight'' ''high'' False,
    task ''5'' ''Renew passport'' ''high'' False]"
proof -
  have a: "keeps P (no_criteria\<lparr>c_status := Some (str ''all'')\<rparr>) = (\<lambda>t. True)"
    by (rule ext) (simp add: keeps_def given_def no_criteria_def str_def)
  have n: "keeps P no_criteria = (\<lambda>t. True)"
    by (rule ext) (simp add: keeps_def given_def no_criteria_def)
  have g: "TodoList_filter P (Some c) s = filter (matches_all P c) (todos s)"
    by (simp add: TodoList_filter_def keeps_matches_all[abs_def])
  show ?thesis
    unfolding g[symmetric] by (simp add: TodoList_filter_def a n five_active_high)
qed

text \<open>
  The five tasks again: the open ones whose text has \<open>renew\<close> in any case, the
  completed ones, the ones of low priority, and the ones of a category and a tag that no
  task has.
\<close>

theorem filter_conjunctive_witness:
  "filter (matches_all example_platform
       (no_criteria\<lparr>c_status := Some (str ''active''), c_search := Some (str ''RENEW'')\<rparr>))
     five_tasks = [task ''5'' ''Renew passport'' ''high'' False] \<and>
   filter (matches_all example_platform (no_criteria\<lparr>c_status := Some (str ''completed'')\<rparr>))
     five_tasks = [task ''2'' ''File taxes'' ''high'' True] \<and>
   filter (matches_all example_platform (no_criteria\<lparr>c_priority := Some (str ''low'')\<rparr>))
     five_tasks = [task ''4'' ''Water plants'' ''low'' False] \<and>
   filter (matches_all example_platform
       (no_criteria\<lparr>c_category := Some (str ''home''), c_tag := Some (str ''#garden'')\<rparr>))
     five_tasks = []"
proof -
  let ?s = "example_list five_tasks"
  let ?c1 = "no_criteria\<lparr>c_status := Some (str ''active''), c_search := Some (str ''RENEW'')\<rparr>"
  let ?c2 = "no_criteria\<lparr>c_status := Some (str ''completed'')\<rparr>"
  let ?c3 = "no_criteria\<lparr>c_priority := Some (str ''low'')\<rparr>"
  let ?c4 = "no_criteria\<lparr>c_category := Some (str ''home''), c_tag := Some (str ''#garden'')\<rparr>"
  have t: "todos ?s = five_tasks" by (simp add: example_list_def)
  have 1: "TodoList_filter example_platform (Some ?c1) ?s = [task ''5'' ''Renew passport'' ''high'' False]"
    by (simp add: TodoList_filter_def t)
       (simp add: keeps_def given_def five_tasks_def task_def Todo_new_def no_fields_def
      no_criteria_def or_str_def or_false_def str_def example_platform_def lower_ascii_def)
  have 2: "TodoList_filter example_platform (Some ?c2) ?s = [task ''2'' ''File taxes'' ''high'' True]"
    by (simp add: TodoList_filter_def t)
       (simp add: keeps_def given_def five_tasks_def task_def Todo_new_def no_fields_def
      no_criteria_def or_str_def or_false_def str_def)
  have 3: "TodoList_filter example_platform (Some ?c3) ?s = [task ''4'' ''Water plants'' ''low'' False]"
    by (simp add: TodoList_filter_def t)
       (simp add: keeps_def given_def five_tasks_def task_def Todo_new_def no_fields_def
      no_criteria_def or_str_def or_false_def str_def)
  have 4: "TodoList_filter example_platform (Some ?c4) ?s = []"
    by (simp add: TodoList_filter_def t)
       (simp add: keeps_def given_def five_tasks_def task_def Todo_new_def no_fields_def
      no_criteria_def or_str_def or_false_def or_empty_def str_def)
  show ?thesis
    using filter_conjunctive [where P = example_platform and s = ?s and c = ?c1]
      filter_conjunctive [where P = example_platform and s = ?s and c = ?c2]
      filter_conjunctive [where P = example_platform and s = ?s and c = ?c3]
      filter_conjunctive [where P = example_platform and s = ?s and c = ?c4]
    unfolding 1 2 3 4 t by simp
qed

section \<open>Sorting\<close>

lemma insert_by_key:
  "\<forall>y \<in> set ys. (cmp x y \<le> 0) = (k x \<le> k y) \<Longrightarrow> insert_by cmp x ys = insort_key k x ys"
  by (induction ys) auto

lemma Array_sort_key:
  "\<forall>x \<in> set xs. \<forall>y \<in> set xs. (cmp x y \<le> 0) = (k x \<le> (k y :: int)) \<Longrightarrow>
     Array_sort cmp xs = sort_key k xs"
proof (induction xs)
  case Nil
  show ?case by (simp add: Array_sort_def)
next
  case (Cons x xs)
  have IH: "Array_sort cmp xs = sort_key k xs" using Cons by simp
  have "\<forall>y \<in> set (sort_key k xs). (cmp x y \<le> 0) = (k x \<le> k y)" using Cons.prems by simp
  then have "insert_by cmp x (sort_key k xs) = insort_key k x (sort_key k xs)"
    by (rule insert_by_key)
  then show ?case using IH by (simp add: Array_sort_def)
qed

lemma js_lt_num: "js_lt (SNum m) (SNum n) = (m < n)"
  by (simp add: js_lt_def)

lemma priority_field:
  "field_value t (str ''priority'') = SStr (priority t)"
  "\<not> str_includes (str ''priority'') (str ''At'')"
  "str ''priority'' \<noteq> str ''dueDate''"
  by (simp_all add: field_value_def str_def)

lemma sort_value_priority:
  assumes "priority t \<in> {str ''high'', str ''medium'', str ''low''}"
  shows "sort_value P (str ''priority'') t = SNum (rank t)"
proof -
  have ne: "str ''medium'' \<noteq> str ''high''" "str ''low'' \<noteq> str ''high''" "str ''low'' \<noteq> str ''medium''"
    by (simp_all add: str_def)
  have "sort_value P (str ''priority'') t = rank_of (priority t)"
    by (simp add: sort_value_def Let_def priority_field)
  also have "\<dots> = SNum (rank t)"
    using assms ne by (auto simp: rank_of_def priorityOrder_def rank_def)
  finally show ?thesis .
qed

lemma compare_priority_asc:
  assumes "priority a \<in> {str ''high'', str ''medium'', str ''low''}"
    "priority b \<in> {str ''high'', str ''medium'', str ''low''}"
  shows "(compare P (str ''priority'') (str ''asc'') a b \<le> 0) = (rank a \<le> rank b)"
  by (simp add: compare_def Let_def sort_value_priority[OF assms(1)] sort_value_priority[OF assms(2)] js_lt_num)

lemma desc_ne_asc: "str ''desc'' \<noteq> str ''asc''"
  by (simp add: str_def)

lemma compare_priority_desc:
  assumes "priority a \<in> {str ''high'', str ''medium'', str ''low''}"
    "priority b \<in> {str ''high'', str ''medium'', str ''low''}"
  shows "(compare P (str ''priority'') (str ''desc'') a b \<le> 0) = (rank b \<le> rank a)"
  by (simp add: compare_def Let_def sort_value_priority[OF assms(1)] sort_value_priority[OF assms(2)] js_lt_num desc_ne_asc)

lemma sort_priority_asc:
  assumes "\<forall>t \<in> set (todos s). priority t \<in> {str ''high'', str ''medium'', str ''low''}"
  shows "TodoList_sort P (Some (str ''priority'')) (Some (str ''asc'')) s = sort_key rank (todos s)"
  unfolding TodoList_sort_def Let_def option.case
  by (rule Array_sort_key) (use assms in \<open>simp add: compare_priority_asc\<close>)

lemma sort_priority_desc:
  assumes "\<forall>t \<in> set (todos s). priority t \<in> {str ''high'', str ''medium'', str ''low''}"
  shows "TodoList_sort P (Some (str ''priority'')) (Some (str ''desc'')) s =
           sort_key (\<lambda>t. - rank t) (todos s)"
  unfolding TodoList_sort_def Let_def option.case
  by (rule Array_sort_key) (use assms in \<open>simp add: compare_priority_desc\<close>)

lemma rank_task:
  "rank (task i n ''high'' d) = 3" "rank (task i n ''medium'' d) = 2" "rank (task i n ''low'' d) = 1"
  "priority (task i n ''high'' d) = str ''high''" "priority (task i n ''medium'' d) = str ''medium''"
  "priority (task i n ''low'' d) = str ''low''"
  by (simp_all add: rank_def task_def Todo_new_def no_fields_def or_str_def str_def)

lemma four_sorted:
  "TodoList_sort P (Some (str ''priority'')) (Some (str ''desc''))
     (s\<lparr>todos := [task ''1'' ''Water plants'' ''low'' False, task ''2'' ''Pay rent'' ''high'' False,
                  task ''3'' ''Call mom'' ''medium'' False, task ''4'' ''File taxes'' ''high'' False]\<rparr>) =
   [task ''2'' ''Pay rent'' ''high'' False, task ''4'' ''File taxes'' ''high'' False,
    task ''3'' ''Call mom'' ''medium'' False, task ''1'' ''Water plants'' ''low'' False]"
  by (subst sort_priority_desc) (simp_all add: rank_task)

text \<open>
  C8. With priorities among high, medium and low, sorting by \<open>priority\<close> is the
  stable sort by rank: descending from high to low, ascending from low to high, entities
  of one rank in the order they had. Priorities low, high, medium, high sorted descending
  give the two high entities in their order, then medium, then low.
\<close>

theorem sort_by_priority:
  assumes "\<forall>t \<in> set (todos s). priority t \<in> {str ''high'', str ''medium'', str ''low''}"
  shows "TodoList_sort P (Some (str ''priority'')) (Some (str ''desc'')) s =
           sort_key (\<lambda>t. - rank t) (todos s) \<and>
         TodoList_sort P (Some (str ''priority'')) (Some (str ''asc'')) s = sort_key rank (todos s) \<and>
         sorted (map (\<lambda>t. - rank t) (TodoList_sort P (Some (str ''priority'')) (Some (str ''desc'')) s)) \<and>
         filter (\<lambda>t. rank t = r) (TodoList_sort P (Some (str ''priority'')) (Some (str ''desc'')) s) =
           filter (\<lambda>t. rank t = r) (todos s) \<and>
         TodoList_sort P (Some (str ''priority'')) (Some (str ''desc''))
           (s\<lparr>todos := [task ''1'' ''Water plants'' ''low'' False, task ''2'' ''Pay rent'' ''high'' False,
                  task ''3'' ''Call mom'' ''medium'' False, task ''4'' ''File taxes'' ''high'' False]\<rparr>) =
         [task ''2'' ''Pay rent'' ''high'' False, task ''4'' ''File taxes'' ''high'' False,
          task ''3'' ''Call mom'' ''medium'' False, task ''1'' ''Water plants'' ''low'' False]"
proof -
  have st: "filter (\<lambda>t. rank t = r) (sort_key (\<lambda>t. - rank t) (todos s)) = filter (\<lambda>t. rank t = r) (todos s)"
    using sort_key_stable[of "\<lambda>t. - rank t" "- r" "todos s"] by simp
  show ?thesis
    by (simp add: sort_priority_desc[OF assms] sort_priority_asc[OF assms] st four_sorted)
qed


text \<open>
  The same four entities sorted ascending.
\<close>

theorem sort_by_priority_witness:
  "TodoList_sort example_platform (Some (str ''priority'')) (Some (str ''asc''))
     (example_list [task ''1'' ''Water plants'' ''low'' False, task ''2'' ''Pay rent'' ''high'' False,
                  task ''3'' ''Call mom'' ''medium'' False, task ''4'' ''File taxes'' ''high'' False]) =
   [task ''1'' ''Water plants'' ''low'' False, task ''3'' ''Call mom'' ''medium'' False,
    task ''2'' ''Pay rent'' ''high'' False, task ''4'' ''File taxes'' ''high'' False]"
proof -
  let ?s = "example_list [task ''1'' ''Water plants'' ''low'' False, task ''2'' ''Pay rent'' ''high'' False,
                  task ''3'' ''Call mom'' ''medium'' False, task ''4'' ''File taxes'' ''high'' False]"
  have h: "\<forall>t \<in> set (todos ?s). priority t \<in> {str ''high'', str ''medium'', str ''low''}"
    by (simp add: example_list_def rank_task)
  show ?thesis
    using sort_by_priority [OF h, of example_platform]
    by (simp add: example_list_def rank_task)
qed

lemma includes_At_simps:
  "\<not> str_includes (str ''id'') (str ''At'')"
  "\<not> str_includes (str ''title'') (str ''At'')"
  "\<not> str_includes (str ''description'') (str ''At'')"
  "\<not> str_includes (str ''completed'') (str ''At'')"
  "\<not> str_includes (str ''priority'') (str ''At'')"
  "\<not> str_includes (str ''categories'') (str ''At'')"
  "\<not> str_includes (str ''tags'') (str ''At'')"
  by (simp_all add: str_def)

lemma date_like_not_plain:
  assumes "date_like field"
  shows "field \<noteq> str ''completed''" "field \<noteq> str ''categories''" "field \<noteq> str ''tags''"
    "field \<noteq> str ''priority''"
proof -
  have ne: "str ''completed'' \<noteq> str ''dueDate''" "str ''categories'' \<noteq> str ''dueDate''"
    "str ''tags'' \<noteq> str ''dueDate''" "str ''priority'' \<noteq> str ''dueDate''"
    by (simp_all add: str_def)
  show "field \<noteq> str ''completed''" using assms ne includes_At_simps
    unfolding date_like_def by blast
  show "field \<noteq> str ''categories''" using assms ne includes_At_simps
    unfolding date_like_def by blast
  show "field \<noteq> str ''tags''" using assms ne includes_At_simps
    unfolding date_like_def by blast
  show "field \<noteq> str ''priority''" using assms ne includes_At_simps
    unfolding date_like_def by blast
qed

lemma date_like_value:
  assumes "date_like field"
  shows "(\<exists>x. field_value t field = SStr x) \<or> field_value t field = SNull \<or>
         field_value t field = SUndefined"
  using date_like_not_plain[OF assms]
  by (simp add: field_value_def null_or_sstr_def split: option.splits)

lemma sort_value_date:
  assumes "date_like field" "dates_parse P field ts" "t \<in> set ts"
  shows "sort_value P field t = SNum (instant P field t)"
proof -
  have dl: "str_includes field (str ''At'') \<or> field = str ''dueDate''"
    using assms(1) by (simp add: date_like_def)
  have np: "field \<noteq> str ''priority''" using date_like_not_plain(4)[OF assms(1)] .
  have sv: "sort_value P field t = date_conv P (field_value t field)"
    using dl np by (simp add: sort_value_def Let_def)
  from date_like_value[OF assms(1), of t] show ?thesis
  proof (elim disjE exE)
    fix x assume fx: "field_value t field = SStr x"
    show ?thesis
    proof (cases "x = []")
      case True
      then show ?thesis using fx sv by (simp add: instant_def)
    next
      case False
      then obtain ms where "Date_getTime P x = Some ms"
        using assms(2,3) fx unfolding dates_parse_def by blast
      then show ?thesis using fx sv False by (simp add: instant_def time_value_def)
    qed
  next
    assume "field_value t field = SNull"
    then show ?thesis using sv by (simp add: instant_def)
  next
    assume "field_value t field = SUndefined"
    then show ?thesis using sv by (simp add: instant_def)
  qed
qed

lemma compare_date_asc:
  assumes "date_like field" "dates_parse P field ts" "a \<in> set ts" "b \<in> set ts"
  shows "(compare P field (str ''asc'') a b \<le> 0) = (instant P field a \<le> instant P field b)"
  by (simp add: compare_def Let_def sort_value_date[OF assms(1,2)] assms(3,4) js_lt_num)

lemma compare_date_desc:
  assumes "date_like field" "dates_parse P field ts" "a \<in> set ts" "b \<in> set ts" "order \<noteq> str ''asc''"
  shows "(compare P field order a b \<le> 0) = (instant P field b \<le> instant P field a)"
  by (simp add: compare_def Let_def sort_value_date[OF assms(1,2)] assms(3,4,5) js_lt_num)

lemma sort_date_asc:
  assumes "date_like field" and "dates_parse P field (todos s)"
  shows "TodoList_sort P (Some field) (Some (str ''asc'')) s = sort_key (instant P field) (todos s)"
  unfolding TodoList_sort_def Let_def option.case
  by (rule Array_sort_key) (simp add: compare_date_asc[OF assms])

lemma sort_date_desc:
  assumes "date_like field" and "dates_parse P field (todos s)" and "order \<noteq> str ''asc''"
  shows "TodoList_sort P (Some field) (Some order) s = sort_key (\<lambda>t. - instant P field t) (todos s)"
  unfolding TodoList_sort_def Let_def option.case
  by (rule Array_sort_key) (simp add: compare_date_desc[OF assms(1,2) _ _ assms(3)])

text \<open>
  C5, as the code has it. On a date-like field whose dates all parse, \<open>sort\<close> is the
  stable sort by the time value of the field, where an absent date counts as 0, the
  epoch: in ascending order it comes after every date before 1970 and before every date
  after it.
\<close>

theorem sort_by_date:
  assumes "date_like field" and "dates_parse P field (todos s)"
  shows "TodoList_sort P (Some field) (Some (str ''asc'')) s = sort_key (instant P field) (todos s) \<and>
         (order \<noteq> str ''asc'' \<longrightarrow>
            TodoList_sort P (Some field) (Some order) s =
              sort_key (\<lambda>t. - instant P field t) (todos s)) \<and>
         sorted (map (instant P field) (TodoList_sort P (Some field) (Some (str ''asc'')) s))"
  using sort_date_asc[OF assms] sort_date_desc[OF assms] by simp

lemma dueDate_like: "date_like (str ''dueDate'')"
  by (simp add: date_like_def)

lemma dueDate_field: "field_value t (str ''dueDate'') = null_or_sstr (dueDate t)"
  by (simp add: field_value_def str_def)

lemma due_task_simps:
  "dueDate (due_task i n None) = None"
  "dueDate (due_task i n (Some d)) = (if d = [] then None else Some (str d))"
  by (simp_all add: due_task_def Todo_new_def no_fields_def or_null_def str_def)

lemma example_times:
  "Date_getTime example_platform (str ''1969-12-31'') = Some (- 86400000)"
  "Date_getTime example_platform (str ''2024-06-01'') = Some 1717200000000"
  by (simp_all add: example_platform_def example_getTime_def str_def)

lemma instant_due:
  "instant example_platform (str ''dueDate'') (due_task i n None) = 0"
  "instant example_platform (str ''dueDate'') (due_task i n (Some ''1969-12-31'')) = - 86400000"
  "instant example_platform (str ''dueDate'') (due_task i n (Some ''2024-06-01'')) = 1717200000000"
    apply (simp add: instant_def dueDate_field due_task_simps null_or_sstr_def)
   apply (simp add: instant_def dueDate_field due_task_simps null_or_sstr_def example_times)
   apply (simp add: str_def)
  apply (simp add: instant_def dueDate_field due_task_simps null_or_sstr_def example_times)
  apply (simp add: str_def)
  done


lemma dates_parse_due:
  "dates_parse example_platform (str ''dueDate'')
     [due_task ''1'' ''Book flight'' (Some ''2024-06-01''), due_task ''2'' ''Pay rent'' None,
      due_task ''3'' ''Return book'' (Some ''1969-12-31'')]"
  "dates_parse example_platform (str ''dueDate'')
     [due_task ''2'' ''Pay rent'' None, due_task ''3'' ''Return book'' (Some ''1969-12-31'')]"
  by (auto simp: dates_parse_def dueDate_field due_task_simps null_or_sstr_def example_times)

text \<open>
  A due date in 2024, none, and one in 1969: ascending, the entity with no due date is in
  the middle.
\<close>

theorem sort_by_date_witness:
  "TodoList_sort example_platform (Some (str ''dueDate'')) (Some (str ''asc''))
     (example_list [due_task ''1'' ''Book flight'' (Some ''2024-06-01''), due_task ''2'' ''Pay rent'' None,
      due_task ''3'' ''Return book'' (Some ''1969-12-31'')]) =
   [due_task ''3'' ''Return book'' (Some ''1969-12-31''), due_task ''2'' ''Pay rent'' None,
    due_task ''1'' ''Book flight'' (Some ''2024-06-01'')] \<and>
   TodoList_sort example_platform (Some (str ''dueDate'')) (Some (str ''desc''))
     (example_list [due_task ''1'' ''Book flight'' (Some ''2024-06-01''), due_task ''2'' ''Pay rent'' None,
      due_task ''3'' ''Return book'' (Some ''1969-12-31'')]) =
   [due_task ''1'' ''Book flight'' (Some ''2024-06-01''), due_task ''2'' ''Pay rent'' None,
    due_task ''3'' ''Return book'' (Some ''1969-12-31'')]"
proof -
  let ?s = "example_list [due_task ''1'' ''Book flight'' (Some ''2024-06-01''), due_task ''2'' ''Pay rent'' None,
      due_task ''3'' ''Return book'' (Some ''1969-12-31'')]"
  have h: "dates_parse example_platform (str ''dueDate'') (todos ?s)"
    by (simp add: example_list_def dates_parse_due)
  have d: "str ''desc'' \<noteq> str ''asc''" by (simp add: str_def)
  show ?thesis
    using sort_by_date [OF dueDate_like h, of "str ''desc''"] d
    by (simp add: example_list_def instant_due)
qed

text \<open>
  C5 as stated fails: sorted ascending by due date, an entity due on 1969-12-31 comes
  before an entity with no due date.
\<close>

theorem sort_absent_date_counterexample:
  "TodoList_sort example_platform (Some (str ''dueDate'')) (Some (str ''asc''))
     (example_list [due_task ''2'' ''Pay rent'' None, due_task ''3'' ''Return book'' (Some ''1969-12-31'')]) =
   [due_task ''3'' ''Return book'' (Some ''1969-12-31''), due_task ''2'' ''Pay rent'' None] \<and>
   dueDate (due_task ''2'' ''Pay rent'' None) = None \<and>
   dueDate (due_task ''3'' ''Return book'' (Some ''1969-12-31'')) = Some (str ''1969-12-31'') \<and>
   Date_getTime example_platform (str ''1969-12-31'') = Some (- 86400000)"
proof -
  let ?s = "example_list [due_task ''2'' ''Pay rent'' None, due_task ''3'' ''Return book'' (Some ''1969-12-31'')]"
  have h: "dates_parse example_platform (str ''dueDate'') (todos ?s)"
    by (simp add: example_list_def dates_parse_due)
  show ?thesis
    unfolding sort_date_asc [OF dueDate_like h]
    by (simp add: example_list_def instant_due due_task_simps example_times)
qed


end
